theory Spec2Isabelle
  imports Main "HOL-Library.Sublist"
begin

section \<open>SpaceKitService: connection dispatch and the relay registry\<close>

text \<open>
  A shallow embedding of \<^verbatim>\<open>src/service/index.js\<close>. The service is a single-threaded
  event-driven program: every method of \<^verbatim>\<open>SpaceKitService\<close> and every callback it
  passes to a collaborator runs to completion on the event loop. Each of them is a
  function from the service's state to its next state; what it does to the outside
  world (sockets, web sockets, the database, bcrypt, DNS) is appended to the state's
  \<open>out\<close> list in program order, and what it logs to \<open>logged\<close>. A callback that is
  waiting for its collaborator is an entry of a pending table holding the variables its
  closure captured; the event that completes the call carries the collaborator's answer.
\<close>

subsection \<open>Data\<close>

type_synonym hostname = string

text \<open>Object identities of raw sockets and of web sockets.\<close>

type_synonym sockid = nat
type_synonym wsid = nat

text \<open>\<^verbatim>\<open>new WebSocketRelay(webSocket)\<close>: a relay is identified by the web socket it wraps.\<close>

datatype relay = WebSocketRelay wsid

text \<open>The fields of \<^verbatim>\<open>config\<close> the service reads; \<open>dnsZone\<close> may be undefined.\<close>

record config =
  host :: string
  api :: string
  web :: string
  dnsZone :: "string option"

text \<open>A row of \<^verbatim>\<open>SELECT id, api_key FROM users\<close>.\<close>

record row =
  id' :: nat
  api_key :: string

text \<open>What the callbacks of the collaborators receive: \<^verbatim>\<open>(err, result)\<close>.\<close>

datatype dbresult = DbError | DbRows "row list"
datatype bcryptresult = BcryptError | BcryptPass bool
datatype dnsresult = DnsError | DnsAddresses "string list"

text \<open>
  What a call of \<^verbatim>\<open>dynamicDNS.upsert\<close> does. Its module is not part of the sources, so
  it is a parameter of the model. The service passes no callback to it and reads no
  result: when the call returns, the update succeeds (\<open>UpsertDone\<close>) or fails later
  without the service being told (\<open>UpsertFailed\<close>). The call is not inside a
  \<^verbatim>\<open>try\<close>, so it can also fail by throwing into its caller (\<open>UpsertThrows\<close>).
\<close>

datatype upsertresult = UpsertDone | UpsertFailed | UpsertThrows
type_synonym dynamicDNS = "hostname \<Rightarrow> string \<Rightarrow> string option \<Rightarrow> upsertresult"

text \<open>
  What the service does to its collaborators:
  \<^verbatim>\<open>apiServer.emit('connection', socket)\<close>, \<^verbatim>\<open>webServer.emit('connection', socket)\<close>,
  \<^verbatim>\<open>relay.addSocket(socket, hostname, port)\<close>, \<^verbatim>\<open>socket.end(data)\<close> (write the data, then
  close the socket), \<^verbatim>\<open>webSocket.close()\<close>, \<^verbatim>\<open>db.run(query, params, callback)\<close>,
  \<^verbatim>\<open>Bcrypt.compare(data, hash, callback)\<close>, \<^verbatim>\<open>Dns.resolve4(name, callback)\<close> and
  \<^verbatim>\<open>dynamicDNS.upsert(hostname, type, address)\<close> with the outcome it will have. The
  web socket of a call with a callback says whose handshake the callback belongs to.
\<close>

datatype action =
    ApiServerConnection sockid
  | WebServerConnection sockid
  | AddSocket relay sockid hostname nat
  | SocketEnd sockid string
  | WsClose wsid
  | DbRun string "string option list" wsid
  | BcryptCompare "string option" string wsid
  | DnsResolve4 string wsid
  | DnsUpsert hostname string "string option" upsertresult

datatype level = INFO | ERROR

text \<open>
  \<open>relays\<close> is \<^verbatim>\<open>this.relays\<close>. \<open>closeHandlers ws\<close> lists, in order of
  installation, the hostnames captured by the \<^verbatim>\<open>'close'\<close> listeners that
  \<^verbatim>\<open>handleRelayConnection\<close> put on web socket \<open>ws\<close>. The pending tables hold the
  captured variables of the callbacks given to \<^verbatim>\<open>db.run\<close>, \<^verbatim>\<open>Bcrypt.compare\<close> and
  \<^verbatim>\<open>Dns.resolve4\<close>, keyed by the web socket of the handshake.
\<close>

record service =
  relays :: "hostname \<rightharpoonup> relay"
  closeHandlers :: "wsid \<Rightarrow> hostname list"
  pendingDb :: "wsid \<rightharpoonup> hostname \<times> string option"
  pendingBcrypt :: "wsid \<rightharpoonup> hostname"
  pendingDns :: "wsid \<rightharpoonup> hostname"
  out :: "action list"
  logged :: "(level \<times> string) list"

definition initial :: service where
  "initial = \<lparr>relays = Map.empty, closeHandlers = (\<lambda>ws. []), pendingDb = Map.empty,
     pendingBcrypt = Map.empty, pendingDns = Map.empty, out = [], logged = []\<rparr>"

definition apiHostname :: "config \<Rightarrow> hostname" where
  "apiHostname cfg = api cfg @ ''.'' @ host cfg"

definition webHostname :: "config \<Rightarrow> hostname" where
  "webHostname cfg = web cfg @ ''.'' @ host cfg"

text \<open>A template literal prints an undefined value as the word \<^verbatim>\<open>undefined\<close>.\<close>

definition tpl :: "string option \<Rightarrow> string" where
  "tpl v = (case v of None \<Rightarrow> ''undefined'' | Some x \<Rightarrow> x)"

text \<open>\<^verbatim>\<open>if (config.dnsZone)\<close>: undefined and the empty string are falsy.\<close>

definition truthy :: "string option \<Rightarrow> bool" where
  "truthy v = (case v of None \<Rightarrow> False | Some x \<Rightarrow> x \<noteq> [])"

definition CRLF :: string where
  "CRLF = [CHR 0x0D, CHR 0x0A]"

definition emit :: "action \<Rightarrow> service \<Rightarrow> service" where
  "emit a s = s\<lparr>out := out s @ [a]\<rparr>"

definition logs :: "level \<Rightarrow> string \<Rightarrow> service \<Rightarrow> service" where
  "logs l msg s = s\<lparr>logged := logged s @ [(l, msg)]\<rparr>"

subsection \<open>The dispatchers\<close>

definition handleTlsConnection :: "config \<Rightarrow> service \<Rightarrow> sockid \<Rightarrow> hostname \<Rightarrow> service" where
  "handleTlsConnection cfg s0 socket hostname =
     (let s = logs INFO ''new Tls connection'' s0 in
      if hostname = apiHostname cfg then emit (ApiServerConnection socket) s
      else if hostname = webHostname cfg then emit (WebServerConnection socket) s
      else (case relays s hostname of
              Some relay \<Rightarrow> emit (AddSocket relay socket hostname 443) s
            | None \<Rightarrow>
                (let message = ''Relay not connected'' in
                 emit (SocketEnd socket (''HTTP/1.1 500 '' @ message @ CRLF @ CRLF @ message)) s)))"

definition handleNetConnection ::
  "config \<Rightarrow> service \<Rightarrow> sockid \<Rightarrow> hostname \<Rightarrow> string \<Rightarrow> service" where
  "handleNetConnection cfg s0 socket hostname path =
     (let s = logs INFO ''new Net connection'' s0 in
      if hostname = host cfg then
        (let response = ''HTTP/1.1 301 Moved Permanently'' @ CRLF @
                        ''Location: https://'' @ webHostname cfg @ path @ CRLF @ CRLF in
         emit (SocketEnd socket response) s)
      else if hostname = apiHostname cfg \<or> hostname = webHostname cfg then
        (let response = ''HTTP/1.1 301 Moved Permanently'' @ CRLF @
                        ''Location: https://'' @ hostname @ path @ CRLF @ CRLF in
         emit (SocketEnd socket response) s)
      else if \<not> prefix ''/.well-known/acme-challenge/'' path then
        (let message = ''Only ACME requests supported'' in
         emit (SocketEnd socket (''HTTP/1.1 500 '' @ message @ CRLF @ CRLF @ message)) s)
      else (case relays s hostname of
              Some relay \<Rightarrow> emit (AddSocket relay socket hostname 80) s
            | None \<Rightarrow>
                (let message = ''Relay not connected'' in
                 emit (SocketEnd socket (''HTTP/1.1 500 '' @ message @ CRLF @ CRLF @ message)) s)))"

subsection \<open>The relay handshake\<close>

definition candidateHostname ::
  "config \<Rightarrow> string option \<Rightarrow> string option \<Rightarrow> hostname" where
  "candidateHostname cfg subdomain username =
     tpl subdomain @ ''.'' @ tpl username @ ''.'' @ host cfg"

definition query :: string where
  "query = ''SELECT id, api_key FROM users WHERE username = $1''"

text \<open>
  The synchronous part of \<^verbatim>\<open>authenticateRelayConnection\<close>, up to the call of
  \<^verbatim>\<open>db.run\<close>. \<open>headers\<close> is \<^verbatim>\<open>webSocket.upgradeReq.headers\<close>. The \<^verbatim>\<open>'error'\<close>
  listener it installs only logs and is left out.
\<close>

definition authenticateRelayConnection ::
  "config \<Rightarrow> service \<Rightarrow> wsid \<Rightarrow> (string \<rightharpoonup> string) \<Rightarrow> service" where
  "authenticateRelayConnection cfg s webSocket headers =
     (let subdomain = headers ''x-spacekit-subdomain'';
          username = headers ''x-spacekit-username'';
          apikey = headers ''x-spacekit-apikey'';
          hostname = candidateHostname cfg subdomain username;
          existingRelay = relays s hostname in
      case existingRelay of
        Some r \<Rightarrow> emit (WsClose webSocket) (logs INFO ''relay auth failed (already exists)'' s)
      | None \<Rightarrow>
          (emit (DbRun query [username] webSocket) s)
            \<lparr>pendingDb := (pendingDb s)(webSocket \<mapsto> (hostname, apikey))\<rparr>)"

text \<open>\<^verbatim>\<open>handleRelayConnection\<close>, up to the call of \<^verbatim>\<open>Dns.resolve4\<close>.\<close>

definition handleRelayConnection :: "config \<Rightarrow> service \<Rightarrow> wsid \<Rightarrow> hostname \<Rightarrow> service" where
  "handleRelayConnection cfg s0 webSocket hostname =
     (let relay = WebSocketRelay webSocket;
          s1 = s0\<lparr>relays := (relays s0)(hostname \<mapsto> relay)\<rparr>;
          s2 = s1\<lparr>closeHandlers :=
                  (closeHandlers s1)(webSocket := closeHandlers s1 webSocket @ [hostname])\<rparr> in
      if truthy (dnsZone cfg) then
        (emit (DnsResolve4 (api cfg @ ''.'' @ host cfg) webSocket) s2)
          \<lparr>pendingDns := (pendingDns s2)(webSocket \<mapsto> hostname)\<rparr>
      else s2)"

text \<open>The callback of \<^verbatim>\<open>Bcrypt.compare\<close>; its closure holds \<open>webSocket\<close> and \<open>hostname\<close>.\<close>

definition bcryptCallback ::
  "config \<Rightarrow> service \<Rightarrow> wsid \<Rightarrow> hostname \<Rightarrow> bcryptresult \<Rightarrow> service" where
  "bcryptCallback cfg s webSocket hostname res =
     (case res of
        BcryptError \<Rightarrow>
          emit (WsClose webSocket) (logs ERROR ''relay auth failed (bcrypt compare error)'' s)
      | BcryptPass pass \<Rightarrow>
          if \<not> pass then
            emit (WsClose webSocket) (logs INFO ''relay auth failed (api key incorrect)'' s)
          else handleRelayConnection cfg (logs INFO ''relay auth success'' s) webSocket hostname)"

text \<open>
  The callback of \<^verbatim>\<open>db.run\<close>; its closure holds \<open>webSocket\<close>, \<open>hostname\<close> and
  \<open>apikey\<close>.
\<close>

definition dbCallback ::
  "config \<Rightarrow> service \<Rightarrow> wsid \<Rightarrow> hostname \<Rightarrow> string option \<Rightarrow> dbresult \<Rightarrow> service" where
  "dbCallback cfg s webSocket hostname apikey res =
     (case res of
        DbError \<Rightarrow>
          emit (WsClose webSocket) (logs ERROR ''relay auth failed (db query error)'' s)
      | DbRows rows \<Rightarrow>
          (case rows of
             [] \<Rightarrow> emit (WsClose webSocket) (logs INFO ''relay auth failed (user not found)'' s)
           | r # rest \<Rightarrow>
               (emit (BcryptCompare apikey (api_key r) webSocket) s)
                 \<lparr>pendingBcrypt := (pendingBcrypt s)(webSocket \<mapsto> hostname)\<rparr>))"

text \<open>The \<^verbatim>\<open>'close'\<close> listener of \<^verbatim>\<open>handleRelayConnection\<close>; its closure holds \<open>hostname\<close>.\<close>

definition closeListener :: "service \<Rightarrow> hostname \<Rightarrow> service" where
  "closeListener s hostname = s\<lparr>relays := (relays s)(hostname := None)\<rparr>"

text \<open>
  The callback of \<^verbatim>\<open>Dns.resolve4\<close>; its closure holds \<open>hostname\<close>. \<^verbatim>\<open>addresses[0]\<close>
  of an empty array is undefined. Either the callback returns (\<open>Inr\<close>, with the next
  state), or the exception thrown by \<^verbatim>\<open>upsert\<close> leaves it (\<open>Inl\<close>, with the state at
  that moment): nothing in the callback catches it.
\<close>

definition dnsCallback ::
  "dynamicDNS \<Rightarrow> service \<Rightarrow> hostname \<Rightarrow> dnsresult \<Rightarrow> service + service" where
  "dnsCallback upsert s hostname res =
     (case res of
        DnsError \<Rightarrow> Inr s
      | DnsAddresses addresses \<Rightarrow>
          (let address = (case addresses of [] \<Rightarrow> None | a # rest \<Rightarrow> Some a);
               s' = emit (DnsUpsert hostname ''A'' address (upsert hostname ''A'' address)) s in
           case upsert hostname ''A'' address of
             UpsertDone \<Rightarrow> Inr s'
           | UpsertFailed \<Rightarrow> Inr s'
           | UpsertThrows \<Rightarrow> Inl s'))"

subsection \<open>The event loop\<close>

text \<open>
  The events the service reacts to: a connection from either proxy server, a connection
  of the web socket server, the completion of a pending call, and the \<^verbatim>\<open>'close'\<close>
  event of a web socket. A completion with no pending callback does nothing; one with a
  pending callback takes it out of its table and runs it. \<open>step\<close> gives the state of
  the service once the event's handler has returned or an exception has left it.
\<close>

datatype event =
    TlsConnection sockid hostname
  | NetConnection sockid hostname string
  | WsConnection wsid "string \<rightharpoonup> string"
  | DbDone wsid dbresult
  | BcryptDone wsid bcryptresult
  | DnsDone wsid dnsresult
  | WsClosed wsid

definition step :: "dynamicDNS \<Rightarrow> config \<Rightarrow> service \<Rightarrow> event \<Rightarrow> service" where
  "step upsert cfg s e =
     (case e of
        TlsConnection socket hostname \<Rightarrow> handleTlsConnection cfg s socket hostname
      | NetConnection socket hostname path \<Rightarrow> handleNetConnection cfg s socket hostname path
      | WsConnection ws headers \<Rightarrow> authenticateRelayConnection cfg s ws headers
      | DbDone ws res \<Rightarrow>
          (case pendingDb s ws of
             None \<Rightarrow> s
           | Some (hostname, apikey) \<Rightarrow>
               dbCallback cfg (s\<lparr>pendingDb := (pendingDb s)(ws := None)\<rparr>) ws hostname apikey res)
      | BcryptDone ws res \<Rightarrow>
          (case pendingBcrypt s ws of
             None \<Rightarrow> s
           | Some hostname \<Rightarrow>
               bcryptCallback cfg (s\<lparr>pendingBcrypt := (pendingBcrypt s)(ws := None)\<rparr>) ws hostname res)
      | DnsDone ws res \<Rightarrow>
          (case pendingDns s ws of
             None \<Rightarrow> s
           | Some hostname \<Rightarrow>
               (case dnsCallback upsert (s\<lparr>pendingDns := (pendingDns s)(ws := None)\<rparr>)
                       hostname res of
                  Inr s' \<Rightarrow> s'
                | Inl s' \<Rightarrow> s'))
      | WsClosed ws \<Rightarrow> foldl closeListener s (closeHandlers s ws))"

definition run :: "dynamicDNS \<Rightarrow> config \<Rightarrow> service \<Rightarrow> event list \<Rightarrow> service" where
  "run upsert cfg s es = foldl (step upsert cfg) s es"



subsection \<open>Reference values\<close>

text \<open>
  The five log lines with which \<^verbatim>\<open>authenticateRelayConnection\<close> and its callbacks
  refuse a handshake, in the order of the source.
\<close>

definition rejections :: "(level \<times> string) list" where
  "rejections =
     [(INFO, ''relay auth failed (already exists)''),
      (ERROR, ''relay auth failed (db query error)''),
      (INFO, ''relay auth failed (user not found)''),
      (ERROR, ''relay auth failed (bcrypt compare error)''),
      (INFO, ''relay auth failed (api key incorrect)'')]"

text \<open>Concrete configurations, headers and collaborators on which the properties are run.\<close>

definition exampleConfig :: config where
  "exampleConfig = \<lparr>host = ''h'', api = ''api'', web = ''www'', dnsZone = None\<rparr>"

definition dottedApiConfig :: config where
  "dottedApiConfig = \<lparr>host = ''h'', api = ''a.u'', web = ''www'', dnsZone = None\<rparr>"


definition exampleHeaders :: "string \<rightharpoonup> string" where
  "exampleHeaders =
     [''x-spacekit-subdomain'' \<mapsto> ''a'', ''x-spacekit-username'' \<mapsto> ''u'',
      ''x-spacekit-apikey'' \<mapsto> ''k'']"

definition noSubdomainHeaders :: "string \<rightharpoonup> string" where
  "noSubdomainHeaders = [''x-spacekit-username'' \<mapsto> ''u'', ''x-spacekit-apikey'' \<mapsto> ''k'']"

definition exampleRows :: "row list" where
  "exampleRows = [\<lparr>id' = 1, api_key = ''$2a$hash''\<rparr>]"

definition failingUpsert :: dynamicDNS where
  "failingUpsert hostname type address = UpsertFailed"


section \<open>Properties\<close>

lemmas handler_defs = run_def step_def handleTlsConnection_def handleNetConnection_def
  authenticateRelayConnection_def handleRelayConnection_def bcryptCallback_def dbCallback_def
  closeListener_def dnsCallback_def emit_def logs_def candidateHostname_def tpl_def truthy_def
  apiHostname_def webHostname_def CRLF_def Let_def

lemmas example_defs = exampleConfig_def exampleHeaders_def exampleRows_def failingUpsert_def
  initial_def

subsection \<open>The secure dispatcher\<close>

text \<open>
  C3: a secure connection whose hostname is the API hostname is handed to the API
  server and to nothing else, whatever the registry holds for that hostname; one whose
  hostname is the Web hostname (and not the API hostname, which is tested first) is
  handed to the Web server, again before the registry is read.
\<close>

theorem C3_api_web_before_relays:
  "(hostname = apiHostname cfg \<longrightarrow>
      handleTlsConnection cfg s socket hostname =
        s\<lparr>out := out s @ [ApiServerConnection socket],
          logged := logged s @ [(INFO, ''new Tls connection'')]\<rparr>) \<and>
   (hostname = webHostname cfg \<longrightarrow> hostname \<noteq> apiHostname cfg \<longrightarrow>
      handleTlsConnection cfg s socket hostname =
        s\<lparr>out := out s @ [WebServerConnection socket],
          logged := logged s @ [(INFO, ''new Tls connection'')]\<rparr>)"
  by (simp add: handleTlsConnection_def Let_def emit_def logs_def)

theorem C3_witness:
  "(let s = handleRelayConnection dottedApiConfig initial 1 ''a.u.h'' in
    relays s ''a.u.h'' = Some (WebSocketRelay 1) \<and>
    out (handleTlsConnection dottedApiConfig s 7 ''a.u.h'') = [ApiServerConnection 7] \<and>
    out (handleTlsConnection dottedApiConfig s 8 ''www.h'') = [WebServerConnection 8])"
  using
    C3_api_web_before_relays [where hostname = "''a.u.h''" and cfg = dottedApiConfig
      and s = "handleRelayConnection dottedApiConfig initial 1 ''a.u.h''" and socket = 7]
    C3_api_web_before_relays [where hostname = "''www.h''" and cfg = dottedApiConfig
      and s = "handleRelayConnection dottedApiConfig initial 1 ''a.u.h''" and socket = 8]
  by (simp add: handleRelayConnection_def apiHostname_def webHostname_def truthy_def Let_def
      example_defs dottedApiConfig_def)

text \<open>
  C5: a secure connection whose hostname is neither the API nor the Web hostname and
  has no relay in the registry is ended with exactly the bytes
  \<^verbatim>\<open>HTTP/1.1 500 Relay not connected\r\n\r\nRelay not connected\<close>; nothing else happens.
\<close>

theorem C5_relay_not_connected:
  assumes "hostname \<noteq> apiHostname cfg" and "hostname \<noteq> webHostname cfg"
    and "relays s hostname = None"
  shows "handleTlsConnection cfg s socket hostname =
    s\<lparr>out := out s @ [SocketEnd socket (''HTTP/1.1 500 Relay not connected'' @
           [CHR 0x0D, CHR 0x0A, CHR 0x0D, CHR 0x0A] @ ''Relay not connected'')],
      logged := logged s @ [(INFO, ''new Tls connection'')]\<rparr>"
  using assms by (simp add: handleTlsConnection_def Let_def emit_def logs_def CRLF_def)

theorem C5_witness:
  "''a.u.h'' \<noteq> apiHostname exampleConfig \<and> ''a.u.h'' \<noteq> webHostname exampleConfig \<and>
   relays initial ''a.u.h'' = None \<and>
   out (handleTlsConnection exampleConfig initial 7 ''a.u.h'') =
     [SocketEnd 7 (''HTTP/1.1 500 Relay not connected'' @
        [CHR 0x0D, CHR 0x0A, CHR 0x0D, CHR 0x0A] @ ''Relay not connected'')]"
proof -
  have a: "''a.u.h'' \<noteq> apiHostname exampleConfig"
    and w: "''a.u.h'' \<noteq> webHostname exampleConfig"
    and r: "relays initial ''a.u.h'' = None"
    by (simp_all add: apiHostname_def webHostname_def example_defs)
  from C5_relay_not_connected [OF a w r, of 7] a w r show ?thesis
    by (simp add: initial_def)
qed

subsection \<open>The plain dispatcher\<close>

text \<open>
  C6: for a plain connection whose hostname is not the base host, the API hostname or
  the Web hostname: a path that does not start with \<^verbatim>\<open>/.well-known/acme-challenge/\<close>
  is answered with exactly
  \<^verbatim>\<open>HTTP/1.1 500 Only ACME requests supported\r\n\r\nOnly ACME requests supported\<close>,
  whatever the registry holds; a path that starts with it, with a relay registered for
  the hostname, makes that relay accept the socket for (hostname, 80).
\<close>

theorem C6_acme_only:
  assumes "hostname \<noteq> host cfg" and "hostname \<noteq> apiHostname cfg"
    and "hostname \<noteq> webHostname cfg"
  shows "(\<not> prefix ''/.well-known/acme-challenge/'' path \<longrightarrow>
      handleNetConnection cfg s socket hostname path =
        s\<lparr>out := out s @ [SocketEnd socket (''HTTP/1.1 500 Only ACME requests supported'' @
               [CHR 0x0D, CHR 0x0A, CHR 0x0D, CHR 0x0A] @ ''Only ACME requests supported'')],
          logged := logged s @ [(INFO, ''new Net connection'')]\<rparr>) \<and>
     (prefix ''/.well-known/acme-challenge/'' path \<longrightarrow> relays s hostname = Some relay \<longrightarrow>
      handleNetConnection cfg s socket hostname path =
        s\<lparr>out := out s @ [AddSocket relay socket hostname 80],
          logged := logged s @ [(INFO, ''new Net connection'')]\<rparr>)"
  using assms by (simp add: handleNetConnection_def Let_def emit_def logs_def CRLF_def)

theorem C6_witness:
  "(let s = handleRelayConnection exampleConfig initial 1 ''a.u.h'' in
    ''a.u.h'' \<noteq> host exampleConfig \<and> ''a.u.h'' \<noteq> apiHostname exampleConfig \<and>
    ''a.u.h'' \<noteq> webHostname exampleConfig \<and>
    \<not> prefix ''/.well-known/acme-challenge/'' ''/bar'' \<and>
    out (handleNetConnection exampleConfig s 7 ''a.u.h'' ''/bar'') =
      [SocketEnd 7 (''HTTP/1.1 500 Only ACME requests supported'' @
         [CHR 0x0D, CHR 0x0A, CHR 0x0D, CHR 0x0A] @ ''Only ACME requests supported'')] \<and>
    prefix ''/.well-known/acme-challenge/'' ''/.well-known/acme-challenge/xyz'' \<and>
    relays s ''a.u.h'' = Some (WebSocketRelay 1) \<and>
    out (handleNetConnection exampleConfig s 8 ''a.u.h'' ''/.well-known/acme-challenge/xyz'') =
      [AddSocket (WebSocketRelay 1) 8 ''a.u.h'' 80])"
proof -
  define s where "s = handleRelayConnection exampleConfig initial 1 ''a.u.h''"
  have h: "''a.u.h'' \<noteq> host exampleConfig" "''a.u.h'' \<noteq> apiHostname exampleConfig"
    "''a.u.h'' \<noteq> webHostname exampleConfig"
    by (simp_all add: apiHostname_def webHostname_def example_defs)
  have r: "relays s ''a.u.h'' = Some (WebSocketRelay 1)" and o: "out s = []"
    by (simp_all add: s_def handleRelayConnection_def truthy_def Let_def example_defs)
  have p: "\<not> prefix ''/.well-known/acme-challenge/'' ''/bar''"
    "prefix ''/.well-known/acme-challenge/'' ''/.well-known/acme-challenge/xyz''"
    by simp_all
  from C6_acme_only [OF h, where path = "''/bar''" and s = s and socket = 7]
    C6_acme_only [OF h, where path = "''/.well-known/acme-challenge/xyz''" and s = s
      and socket = 8 and relay = "WebSocketRelay 1"]
    h r o p
  show ?thesis unfolding s_def [symmetric] Let_def by simp
qed

text \<open>
  C7: a plain connection whose hostname is the configured base host is ended with
  exactly \<^verbatim>\<open>HTTP/1.1 301 Moved Permanently\r\nLocation: https://<webHostname><path>\r\n\r\n\<close>,
  the path of the request appended to the Web hostname; nothing else happens.
\<close>

theorem C7_base_host_redirect:
  "handleNetConnection cfg s socket (host cfg) path =
     s\<lparr>out := out s @ [SocketEnd socket (''HTTP/1.1 301 Moved Permanently'' @
            [CHR 0x0D, CHR 0x0A] @ ''Location: https://'' @ webHostname cfg @ path @
            [CHR 0x0D, CHR 0x0A, CHR 0x0D, CHR 0x0A])],
       logged := logged s @ [(INFO, ''new Net connection'')]\<rparr>"
  by (simp add: handleNetConnection_def Let_def emit_def logs_def CRLF_def)

theorem C7_witness:
  "out (handleNetConnection exampleConfig initial 7 ''h'' ''/foo'') =
     [SocketEnd 7 (''HTTP/1.1 301 Moved Permanently'' @ [CHR 0x0D, CHR 0x0A] @
        ''Location: https://www.h/foo'' @ [CHR 0x0D, CHR 0x0A, CHR 0x0D, CHR 0x0A])]"
  using C7_base_host_redirect [of exampleConfig initial 7 "''/foo''"]
  by (simp add: webHostname_def example_defs)

subsection \<open>How an event changes the registry and the close listeners\<close>

lemma relays_step_other:
  assumes "\<forall>ws. e \<noteq> BcryptDone ws (BcryptPass True)" and "\<forall>ws. e \<noteq> WsClosed ws"
  shows "relays (step upsert cfg s e) = relays s"
proof (cases e)
  case (BcryptDone ws res)
  with assms(1) show ?thesis
    by (cases res) (auto simp: step_def bcryptCallback_def emit_def logs_def split: option.splits)
next
  case (WsClosed ws)
  with assms(2) show ?thesis by simp
qed (auto simp: handler_defs
      split: option.splits dbresult.splits list.splits dnsresult.splits upsertresult.splits)

lemma closeHandlers_foldl_closeListener:
  "closeHandlers (foldl closeListener s hs) = closeHandlers s"
  by (induction hs arbitrary: s) (simp_all add: closeListener_def)

lemma out_foldl_closeListener: "out (foldl closeListener s hs) = out s"
  by (induction hs arbitrary: s) (simp_all add: closeListener_def)

lemma relays_foldl_closeListener:
  "relays (foldl closeListener s hs) k = (if k \<in> set hs then None else relays s k)"
  by (induction hs arbitrary: s) (simp_all add: closeListener_def)

lemma closeHandlers_handleRelayConnection:
  "closeHandlers (handleRelayConnection cfg s ws hostname) =
     (closeHandlers s)(ws := closeHandlers s ws @ [hostname])"
  by (simp add: handleRelayConnection_def Let_def emit_def)

lemma closeHandlers_step:
  "set (closeHandlers s w) \<subseteq> set (closeHandlers (step upsert cfg s e) w)"
proof (cases e)
  case (BcryptDone ws res)
  then show ?thesis
    by (cases res)
      (auto simp: step_def bcryptCallback_def emit_def logs_def
        closeHandlers_handleRelayConnection split: option.splits)
next
  case (WsClosed ws)
  then show ?thesis by (simp add: step_def closeHandlers_foldl_closeListener)
qed (auto simp: handler_defs
      split: option.splits dbresult.splits list.splits dnsresult.splits upsertresult.splits)

lemma closeHandlers_run:
  "set (closeHandlers s w) \<subseteq> set (closeHandlers (run upsert cfg s es) w)"
proof (induction es arbitrary: s)
  case Nil
  then show ?case by (simp add: run_def)
next
  case (Cons e es)
  have "set (closeHandlers s w) \<subseteq> set (closeHandlers (step upsert cfg s e) w)"
    by (rule closeHandlers_step)
  also have "\<dots> \<subseteq> set (closeHandlers (run upsert cfg (step upsert cfg s e) es) w)"
    by (rule Cons.IH)
  finally show ?case by (simp add: run_def)
qed

text \<open>
  Whenever an event makes the service close a web socket, it is the only thing the
  service does besides logging one of the five refusals; the registry is untouched.
\<close>

lemma close_only_by_rejection:
  assumes "WsClose w \<in> set (drop (length (out s)) (out (step upsert cfg s e)))"
  shows "\<exists>m. m \<in> set rejections \<and> logged (step upsert cfg s e) = logged s @ [m] \<and>
           out (step upsert cfg s e) = out s @ [WsClose w] \<and>
           relays (step upsert cfg s e) = relays s"
proof (cases e)
  case (WsClosed ws)
  with assms show ?thesis by (simp add: step_def out_foldl_closeListener)
qed (use assms in \<open>auto simp: handler_defs rejections_def
       split: option.splits dbresult.splits list.splits dnsresult.splits bcryptresult.splits
         upsertresult.splits if_splits\<close>)

subsection \<open>Two handshakes for one hostname\<close>

text \<open>
  C1: the registry is a map, so it holds one relay per hostname; but a handshake that
  finds an entry at registration time is not refused. Web sockets 1 and 2 both claim
  \<^verbatim>\<open>a.u.h\<close> while the registry is empty, so both pass the check at the start of
  \<^verbatim>\<open>authenticateRelayConnection\<close>. Web socket 1 is registered first. When the
  handshake of web socket 2 completes, \<^verbatim>\<open>handleRelayConnection\<close> overwrites the
  entry with its own relay, which lookup now returns, and closes neither web socket.
\<close>

theorem C1_second_registration_overwrites:
  "(let s4 = run failingUpsert exampleConfig initial
       [WsConnection 1 exampleHeaders, WsConnection 2 exampleHeaders,
        DbDone 1 (DbRows exampleRows), BcryptDone 1 (BcryptPass True)];
        s5 = step failingUpsert exampleConfig s4 (DbDone 2 (DbRows exampleRows));
        s6 = step failingUpsert exampleConfig s5 (BcryptDone 2 (BcryptPass True)) in
    relays s5 ''a.u.h'' = Some (WebSocketRelay 1) \<and>
    relays s6 ''a.u.h'' = Some (WebSocketRelay 2) \<and>
    WsClose 1 \<notin> set (out s6) \<and> WsClose 2 \<notin> set (out s6) \<and>
    out s6 = [DbRun query [Some ''u''] 1, DbRun query [Some ''u''] 2,
              BcryptCompare (Some ''k'') ''$2a$hash'' 1,
              BcryptCompare (Some ''k'') ''$2a$hash'' 2])"
  by (simp add: handler_defs example_defs)

text \<open>
  C2: the \<^verbatim>\<open>'close'\<close> listener deletes the entry of its hostname without comparing the
  stored relay with its own. After the two handshakes above the registry holds the
  relay of web socket 2; the close of web socket 1 removes that entry, and a secure
  connection for \<^verbatim>\<open>a.u.h\<close> is answered with the 500 response although web socket 2 was
  never closed.
\<close>

theorem C2_late_close_removes_newer_entry:
  "(let s6 = run failingUpsert exampleConfig initial
       [WsConnection 1 exampleHeaders, WsConnection 2 exampleHeaders,
        DbDone 1 (DbRows exampleRows), BcryptDone 1 (BcryptPass True),
        DbDone 2 (DbRows exampleRows), BcryptDone 2 (BcryptPass True)];
        s7 = step failingUpsert exampleConfig s6 (WsClosed 1);
        s8 = step failingUpsert exampleConfig s7 (TlsConnection 9 ''a.u.h'') in
    relays s6 ''a.u.h'' = Some (WebSocketRelay 2) \<and>
    relays s7 ''a.u.h'' = None \<and>
    WsClose 2 \<notin> set (out s8) \<and>
    last (out s8) = SocketEnd 9 (''HTTP/1.1 500 Relay not connected'' @
       [CHR 0x0D, CHR 0x0A, CHR 0x0D, CHR 0x0A] @ ''Relay not connected''))"
  by (simp add: handler_defs example_defs)

subsection \<open>Refused handshakes\<close>

text \<open>
  C4: each refusal of a handshake (the hostname is already in the registry, the query
  of the credential store failed, it returned no row, bcrypt failed, or the secret does
  not match) logs its cause, closes the web socket and does nothing else: nothing is
  sent on the web socket and the registry is unchanged. In particular a handshake whose
  user exists but whose secret does not match, and one whose user is unknown, leave the
  registry as it was.
\<close>

theorem C4_rejections_only_close:
  "(relays s (candidateHostname cfg (headers ''x-spacekit-subdomain'')
        (headers ''x-spacekit-username'')) \<noteq> None \<longrightarrow>
      authenticateRelayConnection cfg s ws headers =
        s\<lparr>out := out s @ [WsClose ws],
          logged := logged s @ [(INFO, ''relay auth failed (already exists)'')]\<rparr>) \<and>
   dbCallback cfg s ws hostname apikey DbError =
     s\<lparr>out := out s @ [WsClose ws],
       logged := logged s @ [(ERROR, ''relay auth failed (db query error)'')]\<rparr> \<and>
   dbCallback cfg s ws hostname apikey (DbRows []) =
     s\<lparr>out := out s @ [WsClose ws],
       logged := logged s @ [(INFO, ''relay auth failed (user not found)'')]\<rparr> \<and>
   bcryptCallback cfg s ws hostname BcryptError =
     s\<lparr>out := out s @ [WsClose ws],
       logged := logged s @ [(ERROR, ''relay auth failed (bcrypt compare error)'')]\<rparr> \<and>
   bcryptCallback cfg s ws hostname (BcryptPass False) =
     s\<lparr>out := out s @ [WsClose ws],
       logged := logged s @ [(INFO, ''relay auth failed (api key incorrect)'')]\<rparr> \<and>
   relays (run upsert cfg s [WsConnection ws headers, DbDone ws (DbRows (r # rest)),
                             BcryptDone ws (BcryptPass False)]) = relays s \<and>
   relays (run upsert cfg s [WsConnection ws headers, DbDone ws (DbRows [])]) = relays s"
proof -
  have duplicate: "relays s (candidateHostname cfg (headers ''x-spacekit-subdomain'')
        (headers ''x-spacekit-username'')) \<noteq> None \<longrightarrow>
      authenticateRelayConnection cfg s ws headers =
        s\<lparr>out := out s @ [WsClose ws],
          logged := logged s @ [(INFO, ''relay auth failed (already exists)'')]\<rparr>"
    by (auto simp: authenticateRelayConnection_def emit_def logs_def Let_def)
  have db_error: "dbCallback cfg s ws hostname apikey DbError =
     s\<lparr>out := out s @ [WsClose ws],
       logged := logged s @ [(ERROR, ''relay auth failed (db query error)'')]\<rparr>"
    by (simp add: dbCallback_def emit_def logs_def)
  have no_user: "dbCallback cfg s ws hostname apikey (DbRows []) =
     s\<lparr>out := out s @ [WsClose ws],
       logged := logged s @ [(INFO, ''relay auth failed (user not found)'')]\<rparr>"
    by (simp add: dbCallback_def emit_def logs_def)
  have bcrypt_error: "bcryptCallback cfg s ws hostname BcryptError =
     s\<lparr>out := out s @ [WsClose ws],
       logged := logged s @ [(ERROR, ''relay auth failed (bcrypt compare error)'')]\<rparr>"
    by (simp add: bcryptCallback_def emit_def logs_def)
  have mismatch: "bcryptCallback cfg s ws hostname (BcryptPass False) =
     s\<lparr>out := out s @ [WsClose ws],
       logged := logged s @ [(INFO, ''relay auth failed (api key incorrect)'')]\<rparr>"
    by (simp add: bcryptCallback_def emit_def logs_def)
  have wrong_secret:
    "relays (run upsert cfg s [WsConnection ws headers, DbDone ws (DbRows (r # rest)),
                               BcryptDone ws (BcryptPass False)]) = relays s"
    by (simp add: run_def relays_step_other)
  have unknown_user:
    "relays (run upsert cfg s [WsConnection ws headers, DbDone ws (DbRows [])]) = relays s"
    by (simp add: run_def relays_step_other)
  from duplicate db_error no_user bcrypt_error mismatch wrong_secret unknown_user
  show ?thesis by blast
qed

theorem C4_witness:
  "(let s = handleRelayConnection exampleConfig initial 1 ''a.u.h'' in
    relays s (candidateHostname exampleConfig (exampleHeaders ''x-spacekit-subdomain'')
       (exampleHeaders ''x-spacekit-username'')) \<noteq> None \<and>
    out (authenticateRelayConnection exampleConfig s 2 exampleHeaders) = [WsClose 2] \<and>
    relays (authenticateRelayConnection exampleConfig s 2 exampleHeaders) = relays s) \<and>
   (let s' = run failingUpsert exampleConfig initial
       [WsConnection 2 exampleHeaders, DbDone 2 (DbRows exampleRows),
        BcryptDone 2 (BcryptPass False)] in
    relays s' = Map.empty \<and>
    out s' = [DbRun query [Some ''u''] 2, BcryptCompare (Some ''k'') ''$2a$hash'' 2,
              WsClose 2]) \<and>
   (let s' = run failingUpsert exampleConfig initial
       [WsConnection 2 exampleHeaders, DbDone 2 (DbRows [])] in
    relays s' = Map.empty \<and> out s' = [DbRun query [Some ''u''] 2, WsClose 2])"
proof -
  define s where "s = handleRelayConnection exampleConfig initial 1 ''a.u.h''"
  have present: "relays s (candidateHostname exampleConfig
      (exampleHeaders ''x-spacekit-subdomain'') (exampleHeaders ''x-spacekit-username'')) \<noteq> None"
    and quiet: "out s = []"
    by (simp_all add: s_def handleRelayConnection_def candidateHostname_def tpl_def truthy_def
        Let_def example_defs)
  have outs:
    "out (run failingUpsert exampleConfig initial
       [WsConnection 2 exampleHeaders, DbDone 2 (DbRows exampleRows),
        BcryptDone 2 (BcryptPass False)]) =
     [DbRun query [Some ''u''] 2, BcryptCompare (Some ''k'') ''$2a$hash'' 2, WsClose 2]"
    "out (run failingUpsert exampleConfig initial
       [WsConnection 2 exampleHeaders, DbDone 2 (DbRows [])]) =
     [DbRun query [Some ''u''] 2, WsClose 2]"
    by (simp_all add: handler_defs example_defs)
  have empty: "relays initial = Map.empty"
    by (simp add: initial_def)
  from C4_rejections_only_close [where s = s and cfg = exampleConfig
      and headers = exampleHeaders and ws = 2]
    C4_rejections_only_close [where s = initial and cfg = exampleConfig
      and headers = exampleHeaders and ws = 2 and upsert = failingUpsert
      and r = "\<lparr>id' = 1, api_key = ''$2a$hash''\<rparr>" and rest = "[]"]
    present quiet outs empty
  show ?thesis unfolding s_def [symmetric] Let_def by (simp add: exampleRows_def)
qed

subsection \<open>The close of a registered relay\<close>

text \<open>
  C8 as stated fails where the relay's hostname is also the API hostname: with
  \<^verbatim>\<open>config.api = 'a.u'\<close> and \<^verbatim>\<open>config.host = 'h'\<close>, subdomain \<^verbatim>\<open>a\<close> of user \<^verbatim>\<open>u\<close>
  registers \<^verbatim>\<open>a.u.h\<close>; after its web socket closes the entry is gone, and a secure
  connection for \<^verbatim>\<open>a.u.h\<close> is handed to the API server, not answered with the 500
  response.
\<close>

theorem C8_counterexample:
  "(let s1 = run failingUpsert dottedApiConfig initial
        [WsConnection 1 exampleHeaders, DbDone 1 (DbRows exampleRows),
         BcryptDone 1 (BcryptPass True)];
        s2 = step failingUpsert dottedApiConfig s1 (WsClosed 1);
        s3 = step failingUpsert dottedApiConfig s2 (TlsConnection 9 ''a.u.h'') in
    relays s1 ''a.u.h'' = Some (WebSocketRelay 1) \<and>
    relays s2 ''a.u.h'' = None \<and>
    out s3 = out s2 @ [ApiServerConnection 9] \<and>
    out s3 \<noteq> out s2 @ [SocketEnd 9 (''HTTP/1.1 500 Relay not connected'' @
               [CHR 0x0D, CHR 0x0A, CHR 0x0D, CHR 0x0A] @ ''Relay not connected'')])"
  by (simp add: handler_defs example_defs dottedApiConfig_def)

text \<open>
  C8, amended: once \<^verbatim>\<open>handleRelayConnection\<close> has registered a relay for a hostname,
  then whatever events follow, right after the \<^verbatim>\<open>'close'\<close> event of its web socket
  the registry has no entry for that hostname; and if the hostname is neither the API
  nor the Web hostname, a secure connection for it is then ended with exactly
  \<^verbatim>\<open>HTTP/1.1 500 Relay not connected\r\n\r\nRelay not connected\<close>.
\<close>

theorem C8_closed_relay_is_absent:
  "(let s1 = handleRelayConnection cfg s ws hostname;
        s2 = run upsert cfg s1 es;
        s3 = step upsert cfg s2 (WsClosed ws) in
    relays s3 hostname = None \<and>
    (hostname \<noteq> apiHostname cfg \<longrightarrow> hostname \<noteq> webHostname cfg \<longrightarrow>
      handleTlsConnection cfg s3 socket hostname =
        s3\<lparr>out := out s3 @ [SocketEnd socket (''HTTP/1.1 500 Relay not connected'' @
               [CHR 0x0D, CHR 0x0A, CHR 0x0D, CHR 0x0A] @ ''Relay not connected'')],
           logged := logged s3 @ [(INFO, ''new Tls connection'')]\<rparr>))"
proof -
  define s1 where "s1 = handleRelayConnection cfg s ws hostname"
  define s2 where "s2 = run upsert cfg s1 es"
  define s3 where "s3 = step upsert cfg s2 (WsClosed ws)"
  have "hostname \<in> set (closeHandlers s1 ws)"
    by (simp add: s1_def closeHandlers_handleRelayConnection)
  then have "hostname \<in> set (closeHandlers s2 ws)"
    using closeHandlers_run [of s1 ws upsert cfg es] by (auto simp: s2_def)
  then have absent: "relays s3 hostname = None"
    by (simp add: s3_def step_def relays_foldl_closeListener)
  have "handleTlsConnection cfg s3 socket hostname =
        s3\<lparr>out := out s3 @ [SocketEnd socket (''HTTP/1.1 500 Relay not connected'' @
               [CHR 0x0D, CHR 0x0A, CHR 0x0D, CHR 0x0A] @ ''Relay not connected'')],
           logged := logged s3 @ [(INFO, ''new Tls connection'')]\<rparr>"
    if "hostname \<noteq> apiHostname cfg" and "hostname \<noteq> webHostname cfg"
    using that absent by (simp add: handleTlsConnection_def Let_def emit_def logs_def CRLF_def)
  with absent show ?thesis
    unfolding s1_def s2_def s3_def Let_def by blast
qed

theorem C8_witness:
  "''a.u.h'' \<noteq> apiHostname exampleConfig \<and> ''a.u.h'' \<noteq> webHostname exampleConfig \<and>
   (let s1 = handleRelayConnection exampleConfig initial 1 ''a.u.h'';
        s2 = run failingUpsert exampleConfig s1 [TlsConnection 5 ''a.u.h''];
        s3 = step failingUpsert exampleConfig s2 (WsClosed 1) in
    relays s1 ''a.u.h'' = Some (WebSocketRelay 1) \<and>
    out s2 = [AddSocket (WebSocketRelay 1) 5 ''a.u.h'' 443] \<and>
    relays s3 ''a.u.h'' = None \<and>
    out (handleTlsConnection exampleConfig s3 9 ''a.u.h'') =
      out s3 @ [SocketEnd 9 (''HTTP/1.1 500 Relay not connected'' @
         [CHR 0x0D, CHR 0x0A, CHR 0x0D, CHR 0x0A] @ ''Relay not connected'')])"
proof -
  have a: "''a.u.h'' \<noteq> apiHostname exampleConfig"
    and w: "''a.u.h'' \<noteq> webHostname exampleConfig"
    by (simp_all add: apiHostname_def webHostname_def example_defs)
  have before: "relays (handleRelayConnection exampleConfig initial 1 ''a.u.h'') ''a.u.h'' =
      Some (WebSocketRelay 1)"
    "out (run failingUpsert exampleConfig
       (handleRelayConnection exampleConfig initial 1 ''a.u.h'') [TlsConnection 5 ''a.u.h'']) =
      [AddSocket (WebSocketRelay 1) 5 ''a.u.h'' 443]"
    by (simp_all add: handler_defs example_defs)
  from C8_closed_relay_is_absent [where cfg = exampleConfig and s = initial and ws = 1
      and hostname = "''a.u.h''" and upsert = failingUpsert
      and es = "[TlsConnection 5 ''a.u.h'']" and socket = 9]
    a w before
  show ?thesis by (simp add: Let_def)
qed

subsection \<open>DNS synchronisation\<close>




subsection \<open>Missing registration headers\<close>

text \<open>
  C10 as stated fails in its last part: a connection without the subdomain header is
  not refused as malformed and the credential store is queried, but when that query
  fails the connection is closed through the query-error path, which is none of the
  duplicate, user-not-found and secret-verification paths.
\<close>

theorem C10_counterexample:
  "(let s = run failingUpsert exampleConfig initial
        [WsConnection 1 noSubdomainHeaders, DbDone 1 DbError] in
    noSubdomainHeaders ''x-spacekit-subdomain'' = None \<and>
    out s = [DbRun query [Some ''u''] 1, WsClose 1] \<and>
    logged s = [(ERROR, ''relay auth failed (db query error)'')] \<and>
    (ERROR, ''relay auth failed (db query error)'') \<notin>
      {(INFO, ''relay auth failed (already exists)''),
       (INFO, ''relay auth failed (user not found)''),
       (ERROR, ''relay auth failed (bcrypt compare error)''),
       (INFO, ''relay auth failed (api key incorrect)'')})"
  by (simp add: handler_defs example_defs noSubdomainHeaders_def)

text \<open>
  C10, amended: when a registration header is absent,
  \<^verbatim>\<open>authenticateRelayConnection\<close> does not refuse the connection for that. The
  candidate hostname has the word \<^verbatim>\<open>undefined\<close> for each absent part; if the registry
  holds that hostname the connection is refused as a duplicate, and otherwise the
  credential store is queried with the username as it is, possibly undefined, and
  nothing is closed. From any state, an event closes a web socket only with one of the
  five refusals (duplicate, query error, user not found, bcrypt error, secret
  mismatch).
\<close>

theorem C10_missing_headers_not_refused:
  assumes "headers ''x-spacekit-subdomain'' = None \<or> headers ''x-spacekit-username'' = None \<or>
           headers ''x-spacekit-apikey'' = None"
  shows "(let subdomain = headers ''x-spacekit-subdomain'';
              username = headers ''x-spacekit-username'';
              hostname = (case subdomain of None \<Rightarrow> ''undefined'' | Some x \<Rightarrow> x) @ ''.'' @
                         (case username of None \<Rightarrow> ''undefined'' | Some x \<Rightarrow> x) @ ''.'' @
                         host cfg in
          candidateHostname cfg subdomain username = hostname \<and>
          authenticateRelayConnection cfg s ws headers =
            (if relays s hostname = None
             then s\<lparr>pendingDb := (pendingDb s)(ws \<mapsto> (hostname, headers ''x-spacekit-apikey'')),
                    out := out s @ [DbRun query [username] ws]\<rparr>
             else s\<lparr>out := out s @ [WsClose ws],
                    logged := logged s @ [(INFO, ''relay auth failed (already exists)'')]\<rparr>)) \<and>
         (\<forall>e w. WsClose w \<in> set (drop (length (out s)) (out (step upsert cfg s e))) \<longrightarrow>
            (\<exists>m. m \<in> set rejections \<and> logged (step upsert cfg s e) = logged s @ [m]))"
proof -
  have "\<exists>m. m \<in> set rejections \<and> logged (step upsert cfg s e) = logged s @ [m]"
    if "WsClose w \<in> set (drop (length (out s)) (out (step upsert cfg s e)))" for e w
    using close_only_by_rejection [OF that] by blast
  then show ?thesis
    by (auto simp: authenticateRelayConnection_def candidateHostname_def tpl_def emit_def
        logs_def Let_def split: option.splits)
qed

theorem C10_witness:
  "noSubdomainHeaders ''x-spacekit-subdomain'' = None \<and>
   candidateHostname exampleConfig (noSubdomainHeaders ''x-spacekit-subdomain'')
     (noSubdomainHeaders ''x-spacekit-username'') = ''undefined.u.h'' \<and>
   authenticateRelayConnection exampleConfig initial 1 noSubdomainHeaders =
     initial\<lparr>pendingDb := [1 \<mapsto> (''undefined.u.h'', Some ''k'')],
       out := [DbRun query [Some ''u''] 1]\<rparr>"
proof -
  have h: "noSubdomainHeaders ''x-spacekit-subdomain'' = None"
    by (simp add: noSubdomainHeaders_def)
  then have d: "noSubdomainHeaders ''x-spacekit-subdomain'' = None \<or>
      noSubdomainHeaders ''x-spacekit-username'' = None \<or>
      noSubdomainHeaders ''x-spacekit-apikey'' = None"
    by simp
  have v: "noSubdomainHeaders ''x-spacekit-username'' = Some ''u''"
    "noSubdomainHeaders ''x-spacekit-apikey'' = Some ''k''"
    "host exampleConfig = ''h''" "relays initial = Map.empty" "pendingDb initial = Map.empty"
    "out initial = []"
    by (simp_all add: example_defs noSubdomainHeaders_def)
  from C10_missing_headers_not_refused [OF d, where cfg = exampleConfig and s = initial
      and ws = 1 and upsert = failingUpsert] h v
  show ?thesis by (simp add: Let_def)
qed

end
